theory Spec2Isabelle
  imports Complex_Main
begin

section \<open>JavaScript values\<close>

text \<open>
  A JavaScript \<open>number\<close> as the application handles it: the interface code never does
  arithmetic on a dose, a time stamp or a weight, it only tests them
  (\<open>Number.isFinite\<close>, \<open>> 0\<close>) and stores them. A finite double is a real number; the
  three values that are not finite are kept apart.
\<close>

datatype jsnum = Finite real | NaN | Infinity | NegInfinity

text \<open>\<open>Number.isFinite(x)\<close> for a value that is a number.\<close>

fun isFinite :: "jsnum \<Rightarrow> bool" where
  "isFinite (Finite r) = True"
| "isFinite NaN = False"
| "isFinite Infinity = False"
| "isFinite NegInfinity = False"

text \<open>\<open>x > 0\<close> for a number \<open>x\<close>: every comparison with \<open>NaN\<close> is false.\<close>

fun gt_zero :: "jsnum \<Rightarrow> bool" where
  "gt_zero (Finite r) = (0 < r)"
| "gt_zero NaN = False"
| "gt_zero Infinity = True"
| "gt_zero NegInfinity = False"


text \<open>
  What \<open>JSON.parse\<close> returns. An object is the list of its members in the order of the
  text; a number may be \<open>Infinity\<close> (\<open>JSON.parse("1e999")\<close>).
\<close>

datatype json =
    JNull
  | JBool bool
  | JNum jsnum
  | JStr string
  | JArr "json list"
  | JObj "(string \<times> json) list"

text \<open>
  \<open>item.k\<close>: \<open>None\<close> is \<open>undefined\<close>. When the text repeats a member, \<open>JSON.parse\<close>
  keeps the last one. Arrays and primitive values have none of the members read here.
\<close>

fun getProp :: "json \<Rightarrow> string \<Rightarrow> json option" where
  "getProp (JObj kvs) k = map_of (rev kvs) k"
| "getProp JNull k = None"
| "getProp (JBool b) k = None"
| "getProp (JNum n) k = None"
| "getProp (JStr s) k = None"
| "getProp (JArr xs) k = None"

text \<open>\<open>x && typeof x === 'object'\<close>: objects and arrays, not \<open>null\<close>.\<close>

fun is_object :: "json \<Rightarrow> bool" where
  "is_object (JObj kvs) = True"
| "is_object (JArr xs) = True"
| "is_object JNull = False"
| "is_object (JBool b) = False"
| "is_object (JNum n) = False"
| "is_object (JStr s) = False"

datatype error = InvalidFormat | NoValidEntries | TypeError

section \<open>Dose events\<close>

text \<open>
  \<open>DoseEvent\<close> as \<open>sanitizeImportedEvents\<close> builds it. \<open>Route\<close> and \<open>Ester\<close> are string
  enums; the field \<open>id\<close> is written \<open>id'\<close>.
\<close>

record DoseEvent =
  id' :: string
  route :: string
  timeH :: jsnum
  doseMG :: jsnum
  ester :: string
  extras :: json

text \<open>
  What the interface code takes from elsewhere: the values of the enums \<open>Route\<close> and
  \<open>Ester\<close> and the member \<open>Ester.E2\<close> (declared in the logic module), the conversion
  \<open>Number(x)\<close> of a string, an array or an object (string parsing, and \<open>ToPrimitive\<close>,
  which throws a \<open>TypeError\<close> on an object whose \<open>valueOf\<close> and \<open>toString\<close> are not
  callable), and \<open>uuidv4()\<close>, here the identifier drawn for the array element at a
  given index. Every theorem below holds for all of them.
\<close>

record env =
  Route_values :: "string list"
  Ester_values :: "string list"
  Ester_E2 :: string
  Number_of_other :: "json \<Rightarrow> error + jsnum"
  uuidv4 :: "nat \<Rightarrow> string"

text \<open>\<open>Number(x)\<close> for a member that may be absent.\<close>

fun Number_js :: "env \<Rightarrow> json option \<Rightarrow> error + jsnum" where
  "Number_js env None = Inr NaN"
| "Number_js env (Some JNull) = Inr (Finite 0)"
| "Number_js env (Some (JBool b)) = Inr (Finite (if b then 1 else 0))"
| "Number_js env (Some (JNum n)) = Inr n"
| "Number_js env (Some (JStr s)) = Number_of_other env (JStr s)"
| "Number_js env (Some (JArr xs)) = Number_of_other env (JArr xs)"
| "Number_js env (Some (JObj kvs)) = Number_of_other env (JObj kvs)"

text \<open>\<open>Object.values(E).includes(x)\<close> for a string enum: the member, when \<open>x\<close> is one.\<close>

fun enum_member :: "string list \<Rightarrow> json option \<Rightarrow> string option" where
  "enum_member vals (Some (JStr s)) = (if s \<in> set vals then Some s else None)"
| "enum_member vals None = None"
| "enum_member vals (Some JNull) = None"
| "enum_member vals (Some (JBool b)) = None"
| "enum_member vals (Some (JNum n)) = None"
| "enum_member vals (Some (JArr xs)) = None"
| "enum_member vals (Some (JObj kvs)) = None"

text \<open>\<open>typeof item.id === 'string' ? item.id : uuidv4()\<close>\<close>

fun id_or_fresh :: "env \<Rightarrow> nat \<Rightarrow> json option \<Rightarrow> string" where
  "id_or_fresh env i (Some (JStr s)) = s"
| "id_or_fresh env i None = uuidv4 env i"
| "id_or_fresh env i (Some JNull) = uuidv4 env i"
| "id_or_fresh env i (Some (JBool b)) = uuidv4 env i"
| "id_or_fresh env i (Some (JNum n)) = uuidv4 env i"
| "id_or_fresh env i (Some (JArr xs)) = uuidv4 env i"
| "id_or_fresh env i (Some (JObj kvs)) = uuidv4 env i"

text \<open>\<open>(extras && typeof extras === 'object') ? extras : {}\<close>\<close>

definition sanitizedExtras :: "json option \<Rightarrow> json" where
  "sanitizedExtras x =
     (case x of None \<Rightarrow> JObj []
      | Some v \<Rightarrow> if is_object v then v else JObj [])"

text \<open>
  The callback of \<open>raw.map\<close> in \<open>sanitizeImportedEvents\<close>, for the element at index \<open>i\<close>:
  \<open>Inr None\<close> is the callback's \<open>null\<close>, \<open>Inl\<close> an exception thrown by \<open>Number\<close>.
\<close>

definition sanitizeItem :: "env \<Rightarrow> nat \<Rightarrow> json \<Rightarrow> error + DoseEvent option" where
  "sanitizeItem env i item =
     (if \<not> is_object item then Inr None
      else case enum_member (Route_values env) (getProp item ''route'') of
        None \<Rightarrow> Inr None
      | Some r \<Rightarrow>
          (case Number_js env (getProp item ''timeH'') of
             Inl e \<Rightarrow> Inl e
           | Inr timeNum \<Rightarrow>
               if \<not> isFinite timeNum then Inr None
               else (case Number_js env (getProp item ''doseMG'') of
                  Inl e \<Rightarrow> Inl e
                | Inr doseNum \<Rightarrow>
                    Inr (Some \<lparr>
                      id' = id_or_fresh env i (getProp item ''id''),
                      route = r,
                      timeH = timeNum,
                      doseMG = (if isFinite doseNum then doseNum else Finite 0),
                      ester = (case enum_member (Ester_values env) (getProp item ''ester'') of
                                 Some s \<Rightarrow> s | None \<Rightarrow> Ester_E2 env),
                      extras = sanitizedExtras (getProp item ''extras'') \<rparr>))))"

text \<open>
  \<open>raw.map(...).filter(item => item !== null)\<close>: the elements in order, the first
  exception ends the call.
\<close>

fun sanitizeItems :: "env \<Rightarrow> nat \<Rightarrow> json list \<Rightarrow> error + DoseEvent list" where
  "sanitizeItems env i [] = Inr []"
| "sanitizeItems env i (x # xs) =
     (case sanitizeItem env i x of
        Inl e \<Rightarrow> Inl e
      | Inr r \<Rightarrow>
          (case sanitizeItems env (Suc i) xs of
             Inl e \<Rightarrow> Inl e
           | Inr rs \<Rightarrow> Inr (case r of None \<Rightarrow> rs | Some ev \<Rightarrow> ev # rs)))"

fun sanitizeImportedEvents :: "env \<Rightarrow> json \<Rightarrow> error + DoseEvent list" where
  "sanitizeImportedEvents env (JArr items) = sanitizeItems env 0 items"
| "sanitizeImportedEvents env JNull = Inl InvalidFormat"
| "sanitizeImportedEvents env (JBool b) = Inl InvalidFormat"
| "sanitizeImportedEvents env (JNum n) = Inl InvalidFormat"
| "sanitizeImportedEvents env (JStr s) = Inl InvalidFormat"
| "sanitizeImportedEvents env (JObj kvs) = Inl InvalidFormat"

section \<open>Application state\<close>

text \<open>
  \<open>SyncData\<close>, the payload exchanged with the cloud. A member the code tests before
  use (\<open>cloudData.meta &&\<close>, \<open>cloudData.events ||\<close>, \<open>cloudData.weight ??\<close>) is optional.
\<close>

record SyncMeta =
  version :: nat
  exportedAt :: "string option"

record SyncData =
  meta :: "SyncMeta option"
  weight :: "jsnum option"
  events :: "DoseEvent list option"

text \<open>What \<open>await fetchFromCloud(config)\<close> gives: an exception, \<open>null\<close> or a payload.\<close>

datatype fetched = Throws | Returns "SyncData option"

text \<open>
  The state of \<open>AppContent\<close> that the data handlers read and write: the React state
  \<open>events\<close>, \<open>weight\<close>, \<open>syncConfig.isEnabled\<close>, \<open>syncStatus.isSyncing\<close>, and the refs.
  \<open>syncTimerRef\<close> holds a timer handle or \<open>null\<close>. Console output and dialogs are
  left out.
\<close>

record app_state =
  events :: "DoseEvent list"
  weight :: jsnum
  isEnabled :: bool
  isSyncing :: bool
  isImportingRef :: bool
  syncTimerRef :: "nat option"
  initialLoadCompleteRef :: bool
  lastLocalModificationRef :: string

text \<open>
  \<open>a < b\<close> on two strings: the first code unit that differs decides, a proper prefix
  is smaller. (The characters of a time stamp written by \<open>toISOString\<close> are ASCII.)
\<close>

fun js_string_less :: "string \<Rightarrow> string \<Rightarrow> bool" where
  "js_string_less [] [] = False"
| "js_string_less [] (y # ys) = True"
| "js_string_less (x # xs) [] = False"
| "js_string_less (x # xs) (y # ys) =
     (if x = y then js_string_less xs ys else (of_char x :: nat) < of_char y)"

text \<open>\<open>cloudData.meta && cloudData.meta.exportedAt\<close>, when truthy: a non-empty string.\<close>

definition truthy_exportedAt :: "SyncData \<Rightarrow> string option" where
  "truthy_exportedAt cloudData =
     (case meta cloudData of
        None \<Rightarrow> None
      | Some m \<Rightarrow>
          (case exportedAt m of
             None \<Rightarrow> None
           | Some t \<Rightarrow> if t = [] then None else Some t))"

text \<open>\<open>cloudData.events || []\<close> and \<open>cloudData.weight ?? 70.0\<close>\<close>

definition events_or_empty :: "SyncData \<Rightarrow> DoseEvent list" where
  "events_or_empty cloudData =
     (case SyncData.events cloudData of None \<Rightarrow> [] | Some es \<Rightarrow> es)"

definition weight_or_default :: "SyncData \<Rightarrow> jsnum" where
  "weight_or_default cloudData =
     (case SyncData.weight cloudData of None \<Rightarrow> Finite 70 | Some w \<Rightarrow> w)"

subsection \<open>Saving an event\<close>

definition handleSaveEvent :: "DoseEvent \<Rightarrow> app_state \<Rightarrow> app_state" where
  "handleSaveEvent e s =
     s\<lparr> events :=
        (case find (\<lambda>p. id' p = id' e) (events s) of
           Some exists \<Rightarrow> map (\<lambda>p. if id' p = id' e then e else p) (events s)
         | None \<Rightarrow> events s @ [e]) \<rparr>"

subsection \<open>Import from a file\<close>

text \<open>
  The first half of \<open>processImportedData\<close>: \<open>newEvents\<close> and \<open>newWeight\<close> (\<open>None\<close> is
  \<open>undefined\<close>), or the exception of \<open>sanitizeImportedEvents\<close>.
\<close>

fun newWeight_of :: "json option \<Rightarrow> jsnum option" where
  "newWeight_of (Some (JNum n)) = (if gt_zero n then Some n else None)"
| "newWeight_of None = None"
| "newWeight_of (Some JNull) = None"
| "newWeight_of (Some (JBool b)) = None"
| "newWeight_of (Some (JStr s)) = None"
| "newWeight_of (Some (JArr xs)) = None"
| "newWeight_of (Some (JObj kvs)) = None"

fun newEvents_of :: "env \<Rightarrow> json option \<Rightarrow> error + DoseEvent list" where
  "newEvents_of env (Some (JArr xs)) = sanitizeImportedEvents env (JArr xs)"
| "newEvents_of env None = Inr []"
| "newEvents_of env (Some JNull) = Inr []"
| "newEvents_of env (Some (JBool b)) = Inr []"
| "newEvents_of env (Some (JNum n)) = Inr []"
| "newEvents_of env (Some (JStr s)) = Inr []"
| "newEvents_of env (Some (JObj kvs)) = Inr []"

fun readImported :: "env \<Rightarrow> json \<Rightarrow> error + (DoseEvent list \<times> jsnum option)" where
  "readImported env (JArr xs) =
     (case sanitizeImportedEvents env (JArr xs) of
        Inl e \<Rightarrow> Inl e
      | Inr newEvents \<Rightarrow> Inr (newEvents, None))"
| "readImported env (JObj kvs) =
     (case newEvents_of env (getProp (JObj kvs) ''events'') of
        Inl e \<Rightarrow> Inl e
      | Inr newEvents \<Rightarrow> Inr (newEvents, newWeight_of (getProp (JObj kvs) ''weight'')))"
| "readImported env JNull = Inr ([], None)"
| "readImported env (JBool b) = Inr ([], None)"
| "readImported env (JNum n) = Inr ([], None)"
| "readImported env (JStr s) = Inr ([], None)"

text \<open>\<open>!newWeight\<close>: \<open>undefined\<close>, \<open>0\<close> and \<open>NaN\<close> are falsy.\<close>

fun not_newWeight :: "jsnum option \<Rightarrow> bool" where
  "not_newWeight None = True"
| "not_newWeight (Some (Finite r)) = (r = 0)"
| "not_newWeight (Some NaN) = True"
| "not_newWeight (Some Infinity) = False"
| "not_newWeight (Some NegInfinity) = False"

text \<open>
  The guarded block of \<open>processImportedData\<close> up to its \<open>throw\<close>: with no event and no
  weight it throws \<open>Error('No valid entries')\<close>.
\<close>

definition tryImport :: "env \<Rightarrow> json \<Rightarrow> error + (DoseEvent list \<times> jsnum option)" where
  "tryImport env parsed =
     (case readImported env parsed of
        Inl e \<Rightarrow> Inl e
      | Inr (newEvents, newWeight) \<Rightarrow>
          if newEvents = [] \<and> not_newWeight newWeight then Inl NoValidEntries
          else Inr (newEvents, newWeight))"

text \<open>
  \<open>processImportedData\<close>: the value returned and the state after it. Every exception
  is caught, and the state is then as before.
\<close>

definition processImportedData :: "env \<Rightarrow> json \<Rightarrow> app_state \<Rightarrow> bool \<times> app_state" where
  "processImportedData env parsed s =
     (case tryImport env parsed of
        Inl e \<Rightarrow> (False, s)
      | Inr (newEvents, newWeight) \<Rightarrow>
          (True,
            s\<lparr> events := (if 0 < length newEvents then newEvents else events s),
               weight := (case newWeight of None \<Rightarrow> weight s | Some w \<Rightarrow> w) \<rparr>))"

subsection \<open>Cloud synchronisation\<close>

text \<open>
  \<open>handleImportFromCloud\<close>, up to the timer it starts (which resets \<open>isImportingRef\<close>
  100 ms later).
\<close>

definition handleImportFromCloud :: "SyncData \<Rightarrow> app_state \<Rightarrow> app_state" where
  "handleImportFromCloud data s =
     s\<lparr> isImportingRef := True,
        events := events_or_empty data,
        weight := weight_or_default data,
        lastLocalModificationRef :=
          (case truthy_exportedAt data of
             None \<Rightarrow> lastLocalModificationRef s
           | Some t \<Rightarrow> t) \<rparr>"

text \<open>
  \<open>handleCloudSyncSave\<close>: \<open>newEnabled\<close> is \<open>newConfig.isEnabled\<close>, \<open>r\<close> what the fetch
  gives and \<open>confirmed\<close> the answer to \<open>window.confirm\<close>.
\<close>

definition handleCloudSyncSave :: "bool \<Rightarrow> fetched \<Rightarrow> bool \<Rightarrow> app_state \<Rightarrow> app_state" where
  "handleCloudSyncSave newEnabled r confirmed s =
     (let s1 = s\<lparr> isEnabled := newEnabled \<rparr> in
      if \<not> isEnabled s \<and> newEnabled then
        (case r of
           Throws \<Rightarrow> s1
         | Returns None \<Rightarrow> s1
         | Returns (Some cloudData) \<Rightarrow>
             if confirmed then
               s1\<lparr> events := events_or_empty cloudData,
                   weight := weight_or_default cloudData,
                   lastLocalModificationRef :=
                     (case truthy_exportedAt cloudData of
                        None \<Rightarrow> lastLocalModificationRef s1
                      | Some t \<Rightarrow> t) \<rparr>
             else s1)
      else s1)"

text \<open>
  \<open>loadFromCloud\<close>, run once on mount, up to the timer of its \<open>finally\<close> block (which
  500 ms later resets \<open>isImportingRef\<close> and sets \<open>initialLoadCompleteRef\<close>).
\<close>

definition loadFromCloud :: "fetched \<Rightarrow> app_state \<Rightarrow> app_state" where
  "loadFromCloud r s =
     (if \<not> isEnabled s then s\<lparr> initialLoadCompleteRef := True \<rparr>
      else
        let s1 = s\<lparr> isImportingRef := True \<rparr> in
        (case r of
           Throws \<Rightarrow> s1
         | Returns None \<Rightarrow> s1
         | Returns (Some cloudData) \<Rightarrow>
             if 0 < length (events_or_empty cloudData) then
               s1\<lparr> events := events_or_empty cloudData,
                   weight := weight_or_default cloudData,
                   lastLocalModificationRef :=
                     (case truthy_exportedAt cloudData of
                        None \<Rightarrow> lastLocalModificationRef s1
                      | Some t \<Rightarrow> t) \<rparr>
             else
               (case truthy_exportedAt cloudData of
                  Some t \<Rightarrow>
                    s1\<lparr> events := [],
                        weight := weight_or_default cloudData,
                        lastLocalModificationRef := t \<rparr>
                | None \<Rightarrow> s1)))"

text \<open>
  The callback of \<open>pollInterval\<close>. It returns at once while an import or an upload
  runs or a timer handle is stored; otherwise it fetches, and \<open>poll_resume\<close> is the code
  after the \<open>await\<close>, on the state it finds then.
\<close>

definition poll_skips :: "app_state \<Rightarrow> bool" where
  "poll_skips s = (isImportingRef s \<or> isSyncing s \<or> syncTimerRef s \<noteq> None)"

definition poll_resume :: "fetched \<Rightarrow> app_state \<Rightarrow> app_state" where
  "poll_resume r s =
     (case r of
        Throws \<Rightarrow> s
      | Returns None \<Rightarrow> s
      | Returns (Some cloudData) \<Rightarrow>
          (case truthy_exportedAt cloudData of
             None \<Rightarrow> s
           | Some cloudTime \<Rightarrow>
               if js_string_less (lastLocalModificationRef s) cloudTime then
                 s\<lparr> isImportingRef := True,
                    events := events_or_empty cloudData,
                    weight := weight_or_default cloudData,
                    lastLocalModificationRef := cloudTime \<rparr>
               else s))"

definition pollCallback :: "fetched \<Rightarrow> app_state \<Rightarrow> app_state" where
  "pollCallback r s = (if poll_skips s then s else poll_resume r s)"

subsection \<open>The displayed level\<close>

text \<open>
  The effect on \<open>[events, weight]\<close> and the memo \<open>currentLevel\<close>. \<open>runSimulation\<close> and
  \<open>interpolateConcentration\<close> come from the logic module and are parameters here;
  \<open>currentTime_ms\<close> is \<open>currentTime.getTime()\<close>. \<open>x || 0\<close> is 0 for \<open>null\<close>, \<open>0\<close> and
  \<open>NaN\<close>.
\<close>

definition simulationEffect ::
  "(DoseEvent list \<Rightarrow> jsnum \<Rightarrow> 'sim) \<Rightarrow> app_state \<Rightarrow> 'sim option" where
  "simulationEffect runSimulation s =
     (if 0 < length (events s) then Some (runSimulation (events s) (weight s)) else None)"

fun or_zero :: "jsnum option \<Rightarrow> jsnum" where
  "or_zero None = Finite 0"
| "or_zero (Some NaN) = Finite 0"
| "or_zero (Some (Finite r)) = Finite r"
| "or_zero (Some Infinity) = Infinity"
| "or_zero (Some NegInfinity) = NegInfinity"

definition currentLevel ::
  "('sim \<Rightarrow> jsnum \<Rightarrow> jsnum option) \<Rightarrow> 'sim option \<Rightarrow> int \<Rightarrow> jsnum" where
  "currentLevel interpolateConcentration simulation currentTime_ms =
     (case simulation of
        None \<Rightarrow> Finite 0
      | Some sim \<Rightarrow>
          or_zero (interpolateConcentration sim (Finite (real_of_int currentTime_ms / 3600000))))"

section \<open>The simulation engine, from its specification\<close>

text \<open>
  The logic module (\<open>runSimulation\<close>, \<open>interpolateConcentration\<close>, the kinetic models)
  is imported by the interface code above. What follows is written from the
  specification of that module, in exact real arithmetic.
\<close>

text \<open>Modelled from the spec: the type \<open>KineticModel\<close> of the logic module, a tagged variant
  with the coefficients the specification lists. First-order one-compartment:
  absorption rate, elimination rate, bioavailability fraction, volume of distribution.
  Two-phase depot: the two absorption rates, the fraction of the fast pool, elimination
  rate, volume. Zero-order release: the release rate, the active window (up to the
  removal, or the maximum wear duration), elimination rate, volume.
\<close>

datatype KineticModel =
    FirstOrder real real real real
  | TwoPhaseDepot real real real real real
  | ZeroOrder real real real real

text \<open>Modelled from the spec: the single-dose formula of the first-order model, which combines
  the absorption and the elimination exponential, and its limit form where the two rate
  constants are equal (there the general form divides by zero).
\<close>

definition firstOrder :: "real \<Rightarrow> real \<Rightarrow> real \<Rightarrow> real \<Rightarrow> real \<Rightarrow> real \<Rightarrow> real" where
  "firstOrder ka ke F V mass t =
     (if ka = ke then F * mass * ka * t * exp (- ke * t) / V
      else F * mass * ka / (V * (ka - ke)) * (exp (- ke * t) - exp (- ka * t)))"

text \<open>Modelled from the spec: the contribution of a patch while it is worn, rising towards
  the steady level that its release rate gives.
\<close>

definition zeroOrderActive :: "real \<Rightarrow> real \<Rightarrow> real \<Rightarrow> real \<Rightarrow> real" where
  "zeroOrderActive rate ke V t = rate / (ke * V) * (1 - exp (- ke * t))"

text \<open>Modelled from the spec: the contribution function of the logic module,
  \<open>contribution(model, equivalentMass, elapsedHours)\<close>. Before the event it is 0. The
  depot is the weighted sum of two first-order contributions with the same elimination
  rate; the patch rises while active and then decays with the elimination rate from its
  value at the end of the window. The release rate, the only extra parameter of an event,
  is a coefficient of the zero-order model.
\<close>

fun contribution :: "KineticModel \<Rightarrow> real \<Rightarrow> real \<Rightarrow> real" where
  "contribution (FirstOrder ka ke F V) equivalentMass elapsedHours =
     (if elapsedHours < 0 then 0 else firstOrder ka ke F V equivalentMass elapsedHours)"
| "contribution (TwoPhaseDepot k1 k2 fr ke V) equivalentMass elapsedHours =
     (if elapsedHours < 0 then 0
      else fr * firstOrder k1 ke 1 V equivalentMass elapsedHours
         + (1 - fr) * firstOrder k2 ke 1 V equivalentMass elapsedHours)"
| "contribution (ZeroOrder rate window ke V) equivalentMass elapsedHours =
     (if elapsedHours < 0 then 0
      else if elapsedHours \<le> window then zeroOrderActive rate ke V elapsedHours
      else zeroOrderActive rate ke V window * exp (- ke * (elapsedHours - window)))"

text \<open>
  The coefficients for which the formulas are meant: positive rate constants and volume,
  fractions between 0 and 1, a non-negative release rate and window.
\<close>

fun well_formed :: "KineticModel \<Rightarrow> bool" where
  "well_formed (FirstOrder ka ke F V) = (0 < ka \<and> 0 < ke \<and> 0 \<le> F \<and> 0 < V)"
| "well_formed (TwoPhaseDepot k1 k2 fr ke V) =
     (0 < k1 \<and> 0 < k2 \<and> 0 \<le> fr \<and> fr \<le> 1 \<and> 0 < ke \<and> 0 < V)"
| "well_formed (ZeroOrder rate window ke V) =
     (0 \<le> rate \<and> 0 \<le> window \<and> 0 < ke \<and> 0 < V)"

text \<open>Modelled from the spec: the type \<open>SimulationResult\<close> of the logic module, the sequence
  of (time, concentration) samples, ordered by time.
\<close>

type_synonym SimulationResult = "(real \<times> real) list"

text \<open>Modelled from the spec: the binary search of \<open>interpolateConcentration\<close> for the
  bracketing pair. Between the indices \<open>lo < hi\<close> it returns an index \<open>i\<close> with
  \<open>lo \<le> i < hi\<close>, so that \<open>i\<close> and \<open>i + 1\<close> are both samples of the grid.
\<close>

function bracket :: "real list \<Rightarrow> real \<Rightarrow> nat \<Rightarrow> nat \<Rightarrow> nat" where
  "bracket ts q lo hi =
     (if hi - lo \<le> 1 then lo
      else let mid = (lo + hi) div 2
           in if ts ! mid \<le> q then bracket ts q mid hi else bracket ts q lo mid)"
  by pat_completeness auto
termination
  by (relation "measure (\<lambda>(ts, q, lo, hi). hi - lo)") auto

declare bracket.simps [simp del]

text \<open>Modelled from the spec: \<open>interpolateConcentration(result, queryHours)\<close> of the logic
  module. \<open>None\<close> when the query lies outside the range that the grid covers (an empty
  grid covers nothing); otherwise the linear interpolation between the bracketing pair.
\<close>

definition interpolateConcentration :: "SimulationResult \<Rightarrow> real \<Rightarrow> real option" where
  "interpolateConcentration result queryHours =
     (case result of
        [] \<Rightarrow> None
      | s # rest \<Rightarrow>
          if queryHours < fst s \<or> fst (last result) < queryHours then None
          else if rest = [] then Some (snd s)
          else
            let i = bracket (map fst result) queryHours 0 (length result - 1);
                t0 = fst (result ! i); c0 = snd (result ! i);
                t1 = fst (result ! Suc i); c1 = snd (result ! Suc i)
            in if t1 = t0 then Some c0
               else Some (c0 + (c1 - c0) * (queryHours - t0) / (t1 - t0)))"

section \<open>The claims' own notions and example data\<close>




definition ev_a :: DoseEvent where
  "ev_a = \<lparr> id' = ''a'', route = ''oral'', timeH = Finite 10, doseMG = Finite 2,
            ester = ''E2'', extras = JObj [] \<rparr>"

definition ev_b :: DoseEvent where
  "ev_b = \<lparr> id' = ''b'', route = ''gel'', timeH = Finite 20, doseMG = Finite 1,
            ester = ''E2'', extras = JObj [] \<rparr>"

definition ev_a2 :: DoseEvent where
  "ev_a2 = \<lparr> id' = ''a'', route = ''oral'', timeH = Finite 12, doseMG = Finite 4,
             ester = ''E2'', extras = JObj [] \<rparr>"

definition st0 :: app_state where
  "st0 = \<lparr> events = [ev_a, ev_b], weight = Finite 70, isEnabled = True, isSyncing = False,
           isImportingRef = False, syncTimerRef = None, initialLoadCompleteRef = True,
           lastLocalModificationRef = ''2025-01-01T00:00:00.000Z'' \<rparr>"

definition cloud_newer :: SyncData where
  "cloud_newer =
     \<lparr> meta = Some \<lparr> version = 1, exportedAt = Some ''2025-01-02T00:00:00.000Z'' \<rparr>,
       weight = Some (Finite 65), events = Some [ev_b] \<rparr>"

definition cloud_weight_zero :: SyncData where
  "cloud_weight_zero =
     \<lparr> meta = Some \<lparr> version = 1, exportedAt = Some ''2025-01-02T00:00:00.000Z'' \<rparr>,
       weight = Some (Finite 0), events = Some [ev_a] \<rparr>"

section \<open>Imported events\<close>








section \<open>Saving an event\<close>

lemma find_None_all: "find P xs = None \<longleftrightarrow> (\<forall>x\<in>set xs. \<not> P x)"
  by (induction xs) auto

lemma filter_other_ids:
  "filter (\<lambda>p. id' p \<noteq> id' e) (map (\<lambda>p. if id' p = id' e then e else p) xs)
     = filter (\<lambda>p. id' p \<noteq> id' e) xs"
  by (induction xs) auto

text \<open>
  C9: when some stored event has the identifier of \<open>e\<close>, \<open>handleSaveEvent\<close> keeps the
  length of the list and puts \<open>e\<close> at every position that held such an event; when none
  has, it appends \<open>e\<close>. In both cases every position that held an event with another
  identifier holds it still, and the events with another identifier are the same and in
  the same order as before.
\<close>

theorem handleSaveEvent_frame:
  "((\<exists>p \<in> set (events s). id' p = id' e) \<longrightarrow>
       length (events (handleSaveEvent e s)) = length (events s)
     \<and> (\<forall>i < length (events s). id' (events s ! i) = id' e \<longrightarrow>
           events (handleSaveEvent e s) ! i = e))
   \<and> ((\<forall>p \<in> set (events s). id' p \<noteq> id' e) \<longrightarrow>
       events (handleSaveEvent e s) = events s @ [e])
   \<and> (\<forall>i < length (events s). id' (events s ! i) \<noteq> id' e \<longrightarrow>
         events (handleSaveEvent e s) ! i = events s ! i)
   \<and> filter (\<lambda>p. id' p \<noteq> id' e) (events (handleSaveEvent e s))
       = filter (\<lambda>p. id' p \<noteq> id' e) (events s)"
proof (cases "find (\<lambda>p. id' p = id' e) (events s)")
  case None
  then have no: "\<forall>p\<in>set (events s). id' p \<noteq> id' e"
    by (simp add: find_None_all)
  have ev: "events (handleSaveEvent e s) = events s @ [e]"
    using None by (simp add: handleSaveEvent_def)
  show ?thesis
    using no by (simp add: ev nth_append)
next
  case (Some x)
  then have ex: "\<exists>p\<in>set (events s). id' p = id' e"
    by (auto simp: find_Some_iff)
  have ev: "events (handleSaveEvent e s)
      = map (\<lambda>p. if id' p = id' e then e else p) (events s)"
    using Some by (simp add: handleSaveEvent_def)
  show ?thesis
    using ex by (auto simp: ev filter_other_ids)
qed

text \<open>
  Saving an edited event with the identifier \<open>a\<close>: in the list \<open>[a, b]\<close> it takes the
  place of \<open>a\<close>, in the list \<open>[b]\<close> it goes to the end.
\<close>

theorem handleSaveEvent_frame_witness:
  "id' (events st0 ! 0) = id' ev_a2
   \<and> length (events (handleSaveEvent ev_a2 st0)) = length (events st0)
   \<and> events (handleSaveEvent ev_a2 st0) ! 0 = ev_a2
   \<and> events (handleSaveEvent ev_a2 st0) ! 1 = events st0 ! 1
   \<and> id' ev_b \<noteq> id' ev_a2
   \<and> events (handleSaveEvent ev_a2 (st0\<lparr>events := [ev_b]\<rparr>)) = [ev_b, ev_a2]"
  using handleSaveEvent_frame [of st0 ev_a2]
        handleSaveEvent_frame [of "st0\<lparr>events := [ev_b]\<rparr>" ev_a2]
  by (simp add: st0_def ev_a_def ev_b_def ev_a2_def)

section \<open>Cloud polling\<close>

lemma js_string_less_Nil: "\<not> js_string_less a []"
  by (cases a) simp_all

lemma js_string_less_irrefl: "\<not> js_string_less a a"
  by (induction a) simp_all

text \<open>It is the lexicographic order of the code units.\<close>

lemma js_string_less_lexord:
  "js_string_less a b \<longleftrightarrow> (a, b) \<in> lexord {(x, y). (of_char x :: nat) < of_char y}"
  by (induction a b rule: js_string_less.induct) auto

text \<open>
  C10: when the code of a poll after its fetch changes the local events or the local
  weight, the fetch returned a payload whose \<open>meta.exportedAt\<close> is a string strictly
  greater, in the comparison of strings, than the local modification time recorded at
  that moment; so it is for the whole callback, which moreover was not skipped. In every
  other outcome both are as before. And when the fetch returns such a payload, the local
  events and weight become those of the payload (the empty list and 70 where it has
  none).
\<close>

theorem poll_overwrites_only_newer:
  "(events (poll_resume r s) \<noteq> events s \<or> weight (poll_resume r s) \<noteq> weight s \<longrightarrow>
      (\<exists>cloudData m t. r = Returns (Some cloudData) \<and> meta cloudData = Some m
          \<and> exportedAt m = Some t
          \<and> js_string_less (lastLocalModificationRef s) t))
   \<and> (events (pollCallback r s) \<noteq> events s \<or> weight (pollCallback r s) \<noteq> weight s \<longrightarrow>
      \<not> poll_skips s
      \<and> (\<exists>cloudData m t. r = Returns (Some cloudData) \<and> meta cloudData = Some m
          \<and> exportedAt m = Some t
          \<and> js_string_less (lastLocalModificationRef s) t))
   \<and> (\<forall>cloudData m t.
        r = Returns (Some cloudData) \<and> meta cloudData = Some m
          \<and> exportedAt m = Some t \<and> js_string_less (lastLocalModificationRef s) t
        \<longrightarrow> events (poll_resume r s) = events_or_empty cloudData
          \<and> weight (poll_resume r s) = weight_or_default cloudData
          \<and> (\<not> poll_skips s \<longrightarrow> pollCallback r s = poll_resume r s))"
  by (auto simp: pollCallback_def poll_resume_def truthy_exportedAt_def js_string_less_Nil
      split: fetched.splits option.splits if_splits)

text \<open>
  A poll that finds a payload exported one day after the local modification time: the
  local events and weight are replaced.
\<close>

theorem poll_overwrites_only_newer_witness:
  "events (pollCallback (Returns (Some cloud_newer)) st0) \<noteq> events st0
   \<and> meta cloud_newer = Some \<lparr> version = 1, exportedAt = Some ''2025-01-02T00:00:00.000Z'' \<rparr>
   \<and> js_string_less (lastLocalModificationRef st0) ''2025-01-02T00:00:00.000Z''
   \<and> \<not> poll_skips st0
   \<and> events (pollCallback (Returns (Some cloud_newer)) st0) = [ev_b]
   \<and> weight (pollCallback (Returns (Some cloud_newer)) st0) = Finite 65"
  using poll_overwrites_only_newer [of "Returns (Some cloud_newer)" st0]
  by (simp add: st0_def cloud_newer_def pollCallback_def poll_resume_def poll_skips_def
      truthy_exportedAt_def events_or_empty_def weight_or_default_def ev_a_def ev_b_def)

section \<open>The body weight\<close>

lemma readImported_weight:
  "readImported env parsed = Inr (es, Some w) \<Longrightarrow> gt_zero w"
proof (cases parsed)
  case (JObj kvs)
  assume "readImported env parsed = Inr (es, Some w)"
  with JObj have "newWeight_of (getProp (JObj kvs) ''weight'') = Some w"
    by (auto split: sum.splits)
  then show ?thesis
    by (cases "getProp (JObj kvs) ''weight''" rule: newWeight_of.cases)
       (auto split: if_splits)
qed (auto split: sum.splits)

text \<open>The import from a file keeps a positive weight positive: it tests \<open>> 0\<close>.\<close>

lemma processImportedData_weight_positive:
  "gt_zero (weight s) \<Longrightarrow> gt_zero (weight (snd (processImportedData env parsed s)))"
  by (auto simp: processImportedData_def tryImport_def dest: readImported_weight
      split: sum.splits option.splits prod.splits if_splits)

text \<open>
  C7: the paths that take the weight from the cloud do not test it. With a payload whose
  weight is 0, and a state whose weight is 70, each of the manual cloud import, the
  enabling of the synchronisation and the load on start stores the weight 0.
\<close>

theorem cloud_weight_not_checked:
  "weight (handleImportFromCloud cloud_weight_zero st0) = Finite 0
   \<and> weight (handleCloudSyncSave True (Returns (Some cloud_weight_zero)) True
               (st0\<lparr>isEnabled := False\<rparr>)) = Finite 0
   \<and> weight (loadFromCloud (Returns (Some cloud_weight_zero)) st0) = Finite 0
   \<and> gt_zero (weight st0) \<and> \<not> gt_zero (Finite 0)"
  by (simp add: st0_def cloud_weight_zero_def handleImportFromCloud_def
      handleCloudSyncSave_def loadFromCloud_def
      truthy_exportedAt_def events_or_empty_def weight_or_default_def ev_a_def ev_b_def)

section \<open>The level shown for an empty history\<close>

text \<open>
  C5: with an empty list of events the effect runs no simulation and sets the
  simulation to \<open>null\<close>, and the level shown from then on is 0 at every time, whatever the
  engine's functions are.
\<close>

theorem empty_events_level_zero:
  "events s = [] \<Longrightarrow>
     simulationEffect run s = None
     \<and> currentLevel interp (simulationEffect run s) now = Finite 0"
  by (simp add: simulationEffect_def currentLevel_def)

theorem empty_events_level_zero_witness:
  "events (st0\<lparr>events := []\<rparr>) = []
   \<and> currentLevel (\<lambda>sim h. Some (Finite 100))
        (simulationEffect (\<lambda>es w. es) (st0\<lparr>events := []\<rparr>)) 1735689600000 = Finite 0"
proof -
  have h: "events (st0\<lparr>events := []\<rparr>) = []" by simp
  from empty_events_level_zero [OF h] h show ?thesis by blast
qed

section \<open>The contribution function and the interpolator\<close>

text \<open>
  C3: for every kinetic model and equivalent mass, the contribution at a strictly
  negative elapsed time is exactly 0.
\<close>

theorem contribution_before_event:
  "elapsedHours < 0 \<Longrightarrow> contribution model equivalentMass elapsedHours = 0"
  by (cases model) simp_all

theorem contribution_before_event_witness:
  "(- 1 :: real) < 0
   \<and> contribution (FirstOrder (1/2) (1/10) 1 50) 2 (- 1) = 0
   \<and> contribution (TwoPhaseDepot (1/2) (1/20) (3/10) (1/10) 50) 5 (- 1) = 0
   \<and> contribution (ZeroOrder 100 84 (1/10) 50) 0 (- 1) = 0"
proof -
  have h: "(- 1 :: real) < 0" by simp
  from contribution_before_event [OF h] h show ?thesis by blast
qed

text \<open>
  In exact arithmetic the formulas are non-negative from the event on, for a
  non-negative mass and well-formed coefficients.
\<close>

lemma firstOrder_nonneg:
  assumes "0 < ka" "0 < ke" "0 \<le> F" "0 < V" "0 \<le> mass" "0 \<le> t"
  shows "0 \<le> firstOrder ka ke F V mass t"
proof (cases "ka = ke")
  case True
  with assms show ?thesis by (simp add: firstOrder_def)
next
  case False
  have c: "0 \<le> F * mass * ka" using assms by simp
  have "0 \<le> F * mass * ka / (V * (ka - ke)) * (exp (- ke * t) - exp (- ka * t))"
  proof (cases "ke < ka")
    case True
    then have "- ka * t \<le> - ke * t" using assms by (simp add: mult_right_mono)
    then have "0 \<le> exp (- ke * t) - exp (- ka * t)" by simp
    moreover have "0 \<le> F * mass * ka / (V * (ka - ke))"
      using c assms True by simp
    ultimately show ?thesis by (rule mult_nonneg_nonneg [rotated])
  next
    case f: False
    with False have lt: "ka < ke" by simp
    then have "- ke * t \<le> - ka * t" using assms by (simp add: mult_right_mono)
    then have "exp (- ke * t) - exp (- ka * t) \<le> 0" by simp
    moreover have "F * mass * ka / (V * (ka - ke)) \<le> 0"
      using c assms lt by (simp add: divide_nonneg_neg mult_pos_neg)
    ultimately show ?thesis by (rule mult_nonpos_nonpos [rotated])
  qed
  with False show ?thesis by (simp only: firstOrder_def if_False)
qed

lemma zeroOrderActive_nonneg:
  assumes "0 \<le> rate" "0 < ke" "0 < V" "0 \<le> t"
  shows "0 \<le> zeroOrderActive rate ke V t"
proof -
  have "- ke * t \<le> 0" using assms by (simp add: mult_nonneg_nonneg)
  then have "exp (- ke * t) \<le> 1" by simp
  then have "0 \<le> 1 - exp (- ke * t)" by simp
  moreover have "0 \<le> rate / (ke * V)" using assms by simp
  ultimately show ?thesis
    unfolding zeroOrderActive_def by (rule mult_nonneg_nonneg [rotated])
qed

lemma contribution_nonneg:
  assumes "well_formed model" "0 \<le> equivalentMass"
  shows "0 \<le> contribution model equivalentMass elapsedHours"
proof (cases model)
  case (FirstOrder ka ke F V)
  with assms show ?thesis by (simp add: firstOrder_nonneg)
next
  case (TwoPhaseDepot k1 k2 fr ke V)
  with assms show ?thesis by (simp add: firstOrder_nonneg)
next
  case (ZeroOrder rate window ke V)
  with assms show ?thesis by (simp add: zeroOrderActive_nonneg)
qed

text \<open>The search stays between its bounds, so the pair it brackets with is in the grid.\<close>

lemma bracket_bounds:
  "lo < hi \<Longrightarrow> lo \<le> bracket ts q lo hi \<and> bracket ts q lo hi < hi"
proof (induction ts q lo hi rule: bracket.induct)
  case (1 ts q lo hi)
  show ?case
  proof (cases "hi - lo \<le> 1")
    case True
    with "1.prems" show ?thesis by (simp add: bracket.simps)
  next
    case False
    then have m: "lo < (lo + hi) div 2" "(lo + hi) div 2 < hi" by linarith+
    show ?thesis
    proof (cases "ts ! ((lo + hi) div 2) \<le> q")
      case True
      with False "1.IH"(1) [OF False refl True m(2)] m
      show ?thesis by (simp add: bracket.simps [of ts q lo hi] Let_def)
    next
      case c: False
      with False "1.IH"(2) [OF False refl c m(1)] m
      show ?thesis by (simp add: bracket.simps [of ts q lo hi] Let_def)
    qed
  qed
qed

text \<open>
  When the query lies between the samples at the two bounds, it lies between the two
  samples of the pair found.
\<close>

lemma bracket_correct:
  "lo < hi \<Longrightarrow> ts ! lo \<le> q \<Longrightarrow> q \<le> ts ! hi \<Longrightarrow>
     ts ! bracket ts q lo hi \<le> q \<and> q \<le> ts ! Suc (bracket ts q lo hi)"
proof (induction ts q lo hi rule: bracket.induct)
  case (1 ts q lo hi)
  show ?case
  proof (cases "hi - lo \<le> 1")
    case True
    with "1.prems" have "hi = Suc lo" by simp
    with "1.prems" show ?thesis by (simp add: bracket.simps)
  next
    case False
    then have m: "lo < (lo + hi) div 2" "(lo + hi) div 2 < hi" by linarith+
    show ?thesis
    proof (cases "ts ! ((lo + hi) div 2) \<le> q")
      case True
      from "1.IH"(1) [OF False refl True m(2) True "1.prems"(3)] False True
      show ?thesis by (simp add: bracket.simps [of ts q lo hi] Let_def)
    next
      case c: False
      then have "q \<le> ts ! ((lo + hi) div 2)" by simp
      from "1.IH"(2) [OF False refl c m(1) "1.prems"(2) this] False c
      show ?thesis by (simp add: bracket.simps [of ts q lo hi] Let_def)
    qed
  qed
qed

text \<open>Inside the covered range the interpolator gives a value.\<close>

lemma interpolateConcentration_inside:
  "result \<noteq> [] \<Longrightarrow> fst (hd result) \<le> queryHours \<Longrightarrow> queryHours \<le> fst (last result) \<Longrightarrow>
     \<exists>c. interpolateConcentration result queryHours = Some c"
  by (cases result) (auto simp: interpolateConcentration_def Let_def)

lemma interpolateConcentration_example:
  "interpolateConcentration [(0, 0), (1, 10), (2, 4)] (3/2) = Some 7
   \<and> interpolateConcentration [(0, 0), (1, 10), (2, 4)] 1 = Some 10"
  by (simp add: interpolateConcentration_def bracket.simps)

text \<open>
  C4: for every simulation result and every query time outside the range that the grid
  covers (before the first sample, after the last one, or any time when the grid is
  empty), \<open>interpolateConcentration\<close> returns none.
\<close>

theorem interpolateConcentration_outside:
  "result = [] \<or> queryHours < fst (hd result) \<or> fst (last result) < queryHours \<Longrightarrow>
     interpolateConcentration result queryHours = None"
  by (cases result) (auto simp: interpolateConcentration_def)

theorem interpolateConcentration_outside_witness:
  "fst (last [(0, 0), (1, 10), (2, 4 :: real)]) < (3 :: real)
   \<and> interpolateConcentration [(0, 0), (1, 10), (2, 4)] 3 = None
   \<and> interpolateConcentration [(0, 0), (1, 10), (2, 4)] (- 1) = None
   \<and> interpolateConcentration [] 0 = None"
  using interpolateConcentration_outside [of "[(0, 0), (1, 10), (2, 4)]" 3]
    interpolateConcentration_outside [of "[(0, 0), (1, 10), (2, 4)]" "- 1"]
    interpolateConcentration_outside [of "[]" 0]
  by simp

end
